theory Spec2Isabelle
  imports Main "HOL-Library.Word"
begin

section \<open>JavaScript values\<close>

text \<open>
  A JavaScript string is a sequence of UTF-16 code units, so a string is a list of
  16-bit words. The messages of the front-end contain U+2019 and U+1F449, which are
  written as code units; \<open>ascii\<close> embeds a literal of ASCII characters.
\<close>

type_synonym js_string = "16 word list"

definition ascii :: "string \<Rightarrow> js_string" where
  "ascii s = map of_char s"

text \<open>
  An optional property is an \<open>option\<close>: \<open>None\<close> is \<open>undefined\<close> (or \<open>null\<close>).
  Numbers are the integers the program handles (epoch milliseconds, lifetimes in seconds);
  a number option \<open>None\<close> stands for \<open>undefined\<close> and for \<open>NaN\<close>, which the
  arithmetic and the comparison below do not tell apart: \<open>undefined * 1000\<close> is
  \<open>NaN\<close>, \<open>n + NaN\<close> is \<open>NaN\<close>, and \<open>n < NaN\<close> and \<open>n < undefined\<close> are false.
\<close>

definition truthy_str :: "js_string option \<Rightarrow> bool" where
  "truthy_str v = (case v of None \<Rightarrow> False | Some s \<Rightarrow> s \<noteq> [])"

definition truthy_bool :: "bool option \<Rightarrow> bool" where
  "truthy_bool v = (case v of None \<Rightarrow> False | Some b \<Rightarrow> b)"

definition js_times :: "int option \<Rightarrow> int \<Rightarrow> int option" where
  "js_times x k = (case x of None \<Rightarrow> None | Some n \<Rightarrow> Some (n * k))"

definition js_plus :: "int \<Rightarrow> int option \<Rightarrow> int option" where
  "js_plus a y = (case y of None \<Rightarrow> None | Some n \<Rightarrow> Some (a + n))"

definition js_less :: "int \<Rightarrow> int option \<Rightarrow> bool" where
  "js_less a y = (case y of None \<Rightarrow> False | Some n \<Rightarrow> a < n)"

text \<open>
  The outcome of \<open>await fetch(...)\<close> followed by \<open>await response.json()\<close>: the fetch
  rejects (\<open>NetworkError\<close>), or a response arrives with its \<open>ok\<close> flag and a body that
  does not parse (\<open>Malformed\<close>), parses to \<open>null\<close>, or parses to an object. A body that
  parses to a number, a string or an array has none of the properties read here and is
  an object with every property absent.
\<close>

datatype 'a parsed = Malformed | JsonNull | JsonObject 'a

datatype 'a http_result = NetworkError | Response bool "'a parsed"


section \<open>Credential lifecycle: \<open>route.ts\<close> and \<open>lib/auth\<close>\<close>

text \<open>
  The token set of the identity provider, as \<open>account\<close> at sign-in and as
  \<open>refreshedTokens\<close> after a refresh: both are read through the same three properties.
\<close>

record token_set =
  access_token :: "js_string option"
  expires_in :: "int option"
  refresh_token :: "js_string option"

record profile =
  sub :: "js_string option"

record token_user =
  user_id :: "js_string option"

text \<open>
  The session token. \<open>other_claims\<close> are the properties the framework keeps in the
  token besides the ones this code writes (name, email, picture, ...): the spread
  \<open>...token\<close> carries them along, the object literal of the sign-in does not.
\<close>

record token =
  accessToken :: "js_string option"
  accessTokenExpires :: "int option"
  refreshToken :: "js_string option"
  user :: "token_user option"
  error :: "js_string option"
  other_claims :: "(js_string \<times> js_string) list"

definition RefreshAccessTokenError :: js_string where
  "RefreshAccessTokenError = ascii ''RefreshAccessTokenError''"

text \<open>
  The one request of this component: the POST to the provider's token endpoint with
  \<open>grant_type=refresh_token\<close>. The client id and secret come from the process
  environment and are the same in every request; the request is identified by the
  refresh token it carries.
\<close>

datatype token_request = RefreshGrant "js_string option"

text \<open>
  The \<open>try\<close> block of \<open>refreshAccessToken\<close>; \<open>None\<close> is a \<open>throw\<close>. The clock is
  read after the response has been parsed, and only on the path that returns.
  With a \<open>null\<close> body the block throws in either case: \<open>throw refreshedTokens\<close> when
  the response is not ok, a TypeError at \<open>refreshedTokens.access_token\<close> otherwise.
\<close>

fun refresh_try :: "token_set http_result \<Rightarrow> int \<Rightarrow> token \<Rightarrow> token option" where
  "refresh_try NetworkError now tok = None"
| "refresh_try (Response ok Malformed) now tok = None"
| "refresh_try (Response ok JsonNull) now tok = None"
| "refresh_try (Response ok (JsonObject refreshedTokens)) now tok =
     (if \<not> ok then None
      else Some (tok\<lparr>
        accessToken := access_token refreshedTokens,
        accessTokenExpires := js_plus now (js_times (expires_in refreshedTokens) 1000),
        refreshToken := (case refresh_token refreshedTokens of
                           None \<Rightarrow> refreshToken tok
                         | Some r \<Rightarrow> Some r)\<rparr>))"

text \<open>
  \<open>refreshAccessToken\<close> returns the new token and the requests it has sent.
  \<open>fetch\<close> is the network: what the token endpoint answers to a request.
\<close>

definition refreshAccessToken ::
  "(token_request \<Rightarrow> token_set http_result) \<Rightarrow> int \<Rightarrow> token \<Rightarrow> token \<times> token_request list" where
  "refreshAccessToken fetch now tok =
     (let rq = RefreshGrant (refreshToken tok) in
      (case refresh_try (fetch rq) now tok of
         Some refreshed \<Rightarrow> refreshed
       | None \<Rightarrow> tok\<lparr>error := Some RefreshAccessTokenError\<rparr>,
       [rq]))"

text \<open>
  The \<open>jwt\<close> callback. \<open>now\<close> is the reading of the clock in the callback itself,
  \<open>now'\<close> the later reading inside \<open>refreshAccessToken\<close>. An absent \<open>account\<close> or
  \<open>profile\<close> is \<open>None\<close>; an object is truthy.
\<close>

definition jwt ::
  "(token_request \<Rightarrow> token_set http_result) \<Rightarrow> int \<Rightarrow> int \<Rightarrow>
     token \<Rightarrow> token_set option \<Rightarrow> profile option \<Rightarrow> token \<times> token_request list" where
  "jwt fetch now now' tok account prof =
     (case (account, prof) of
        (Some a, Some p) \<Rightarrow>
          (\<lparr>accessToken = access_token a,
            accessTokenExpires =
              Some (now + (case expires_in a of
                             None \<Rightarrow> 3600 * 1000
                           | Some n \<Rightarrow> if n \<noteq> 0 then n * 1000 else 3600 * 1000)),
            refreshToken = refresh_token a,
            user = Some \<lparr>user_id = sub p\<rparr>,
            error = None,
            other_claims = []\<rparr>, [])
      | _ \<Rightarrow>
          if js_less now (accessTokenExpires tok) then (tok, [])
          else refreshAccessToken fetch now' tok)"

text \<open>
  A sequence of ordinary reads of the session token: the callback runs with no
  account and no profile, each time with its own clock readings and network.
\<close>

record read_event =
  clock :: int
  network :: "token_request \<Rightarrow> token_set http_result"
  clock_after :: int

fun reads :: "token \<Rightarrow> read_event list \<Rightarrow> token" where
  "reads tok [] = tok"
| "reads tok (e # es) =
     reads (fst (jwt (network e) (clock e) (clock_after e) tok None None)) es"


section \<open>Generation request: \<open>layout/page.tsx\<close>\<close>

datatype sender = User | Ai

record message =
  sender :: sender
  "text" :: js_string

text \<open>The part of the session the page reads: \<open>session?.accessToken\<close>.\<close>

record session =
  session_accessToken :: "js_string option"

text \<open>
  The state of the page: the value of the textarea behind the \<open>input\<close> ref (\<open>None\<close>
  while the ref is not attached), the in-flight flag \<open>check\<close>, the conversation log
  and the session.
\<close>

record ui_state =
  input :: "js_string option"
  check :: bool
  messages :: "message list"
  session :: "session option"

text \<open>
  The POST to \<open>/generate-presentation\<close>: the \<open>Authorization\<close> header and the two
  properties of the JSON body. The expected body of the answer is
  \<open>{success: boolean, url?: string}\<close>.
\<close>

record gen_request =
  authorization :: js_string
  body_topic :: js_string
  body_access_token :: "js_string option"

record gen_body =
  success :: "bool option"
  url :: "js_string option"

text \<open>
  \<open>String.prototype.trim\<close> removes the white space and line terminators of ECMAScript
  from both ends.
\<close>

definition is_line_terminator :: "16 word \<Rightarrow> bool" where
  "is_line_terminator c = (c = 0x000A \<or> c = 0x000D \<or> c = 0x2028 \<or> c = 0x2029)"

definition is_white_space :: "16 word \<Rightarrow> bool" where
  "is_white_space c =
     (c = 0x0009 \<or> c = 0x000B \<or> c = 0x000C \<or> c = 0x0020 \<or> c = 0x00A0 \<or> c = 0x1680
      \<or> (0x2000 \<le> c \<and> c \<le> 0x200A) \<or> c = 0x202F \<or> c = 0x205F \<or> c = 0x3000
      \<or> c = 0xFEFF \<or> is_line_terminator c)"

definition trim :: "js_string \<Rightarrow> js_string" where
  "trim s = rev (dropWhile is_white_space (rev (dropWhile is_white_space s)))"

text \<open>A value interpolated into a template literal.\<close>

definition template :: "js_string option \<Rightarrow> js_string" where
  "template v = (case v of None \<Rightarrow> ascii ''undefined'' | Some s \<Rightarrow> s)"

definition optional_accessToken :: "session option \<Rightarrow> js_string option" where
  "optional_accessToken s = (case s of None \<Rightarrow> None | Some d \<Rightarrow> session_accessToken d)"

text \<open>
  The three texts of the replies. \<open>link_phrase\<close> is the phrase the page looks for when
  it renders the log; the success text continues it with U+1F449 (a surrogate pair) and
  the link in the form \<open>[View Presentation](url)\<close>.
\<close>

definition link_phrase :: js_string where
  "link_phrase = ascii ''Here'' @ [0x2019] @ ascii ''s your Google Slides presentation''"

definition success_text :: "js_string \<Rightarrow> js_string" where
  "success_text u =
     link_phrase @ ascii '' '' @ [0xD83D, 0xDC49] @ ascii '' [View Presentation]('' @ u @ ascii '')''"

definition apology_text :: js_string where
  "apology_text = ascii ''Sorry, I couldn'' @ [0x2019] @ ascii ''t generate your slides.''"

definition try_again_text :: js_string where
  "try_again_text = ascii ''Something went wrong. Try again!''"

text \<open>\<open>setMessages((prev) => [...prev, m])\<close>.\<close>

definition setMessages_append :: "message \<Rightarrow> ui_state \<Rightarrow> ui_state" where
  "setMessages_append m st = st\<lparr>messages := messages st @ [m]\<rparr>"

text \<open>
  \<open>handleSubmit\<close> up to its \<open>await\<close>: the guard, the cleared textarea, the user's
  message, the flag, and the request handed to \<open>fetch\<close> (\<open>None\<close> when the guard
  returns).
\<close>

definition handleSubmit_sync :: "ui_state \<Rightarrow> ui_state \<times> gen_request option" where
  "handleSubmit_sync st =
     (case input st of
        None \<Rightarrow> (st, None)
      | Some v \<Rightarrow>
          if trim v = [] \<or> \<not> truthy_str (optional_accessToken (session st)) then (st, None)
          else
            (let userMessage = v in
             ((setMessages_append \<lparr>sender = User, text = userMessage\<rparr>
                 (st\<lparr>input := Some []\<rparr>))\<lparr>check := True\<rparr>,
              Some \<lparr>authorization = ascii ''Bearer '' @ template (optional_accessToken (session st)),
                     body_topic = userMessage,
                     body_access_token = optional_accessToken (session st)\<rparr>)))"

text \<open>
  The \<open>try\<close> block after the \<open>await\<close>; \<open>None\<close> is a \<open>throw\<close>: the fetch rejects,
  \<open>res.json()\<close> rejects, or the body is \<open>null\<close> and \<open>data.success\<close> is a TypeError.
  The status of the response is not looked at.
\<close>

fun submit_try :: "gen_body http_result \<Rightarrow> ui_state \<Rightarrow> ui_state option" where
  "submit_try NetworkError st = None"
| "submit_try (Response ok Malformed) st = None"
| "submit_try (Response ok JsonNull) st = None"
| "submit_try (Response ok (JsonObject data)) st =
     Some (if truthy_bool (success data) \<and> truthy_str (url data)
           then setMessages_append \<lparr>sender = Ai, text = success_text (template (url data))\<rparr> st
           else setMessages_append \<lparr>sender = Ai, text = apology_text\<rparr> st)"

text \<open>The rest of \<open>handleSubmit\<close>: \<open>try\<close>, \<open>catch\<close>, and \<open>finally\<close> with \<open>setCheck(false)\<close>.\<close>

definition handleSubmit_settle :: "gen_body http_result \<Rightarrow> ui_state \<Rightarrow> ui_state" where
  "handleSubmit_settle r st =
     (case submit_try r st of
        Some st' \<Rightarrow> st'
      | None \<Rightarrow> setMessages_append \<lparr>sender = Ai, text = try_again_text\<rparr> st)\<lparr>check := False\<rparr>"

text \<open>A whole call, run to completion against the network \<open>fetch\<close>, with the requests sent.\<close>

definition handleSubmit ::
  "(gen_request \<Rightarrow> gen_body http_result) \<Rightarrow> ui_state \<Rightarrow> ui_state \<times> gen_request list" where
  "handleSubmit fetch st =
     (case handleSubmit_sync st of
        (st', None) \<Rightarrow> (st', [])
      | (st', Some rq) \<Rightarrow> (handleSubmit_settle (fetch rq) st', [rq]))"

text \<open>
  The send button, \<open><button onClick={handleSubmit} disabled={check}>\<close>, is the only
  place that calls \<open>handleSubmit\<close>. A disabled button dispatches no click, so a click
  reaches the handler only while \<open>check\<close> is false.
\<close>

definition button_onClick :: "ui_state \<Rightarrow> ui_state \<times> gen_request option" where
  "button_onClick st = (if check st then (st, None) else handleSubmit_sync st)"

text \<open>
  Rendering a message: \<open>msg.text.match(/\((.*?)\)/)?.[1] || "#"\<close>. The match starts
  at the first \<open>(\<close> from which a \<open>)\<close> is reached without crossing a line terminator,
  and the lazy group stops at the first \<open>)\<close>.
\<close>

fun lazy_dots :: "js_string \<Rightarrow> js_string option" where
  "lazy_dots [] = None"
| "lazy_dots (c # cs) =
     (if c = 0x29 then Some []
      else if is_line_terminator c then None
      else (case lazy_dots cs of None \<Rightarrow> None | Some cap \<Rightarrow> Some (c # cap)))"

fun match_parenthesized :: "js_string \<Rightarrow> js_string option" where
  "match_parenthesized [] = None"
| "match_parenthesized (c # cs) =
     (if c = 0x28 then
        (case lazy_dots cs of Some cap \<Rightarrow> Some cap | None \<Rightarrow> match_parenthesized cs)
      else match_parenthesized cs)"

definition startsWith :: "js_string \<Rightarrow> js_string \<Rightarrow> bool" where
  "startsWith s p = (take (length p) s = p)"

definition href :: "js_string \<Rightarrow> js_string" where
  "href t = (case match_parenthesized t of
               None \<Rightarrow> ascii ''#''
             | Some cap \<Rightarrow> if cap = [] then ascii ''#'' else cap)"

datatype rendered = Anchor js_string | Plain js_string

definition render :: "message \<Rightarrow> rendered" where
  "render msg = (if startsWith (text msg) link_phrase then Anchor (href (text msg))
                 else Plain (text msg))"


section \<open>Vocabulary of the properties\<close>

text \<open>
  A call that ends in the \<open>catch\<close> block whatever the status: the fetch rejects, the body
  does not parse, or the body is \<open>null\<close>.
\<close>

definition throws :: "'a http_result \<Rightarrow> bool" where
  "throws r =
     (case r of
        NetworkError \<Rightarrow> True
      | Response ok Malformed \<Rightarrow> True
      | Response ok JsonNull \<Rightarrow> True
      | Response ok (JsonObject _) \<Rightarrow> False)"

text \<open>
  A failed refresh attempt: a transport error, a response that is not a success, or a
  body that is no object.
\<close>

definition refresh_fails :: "token_set http_result \<Rightarrow> bool" where
  "refresh_fails r =
     (case r of
        NetworkError \<Rightarrow> True
      | Response ok body \<Rightarrow> \<not> ok \<or> (case body of JsonObject _ \<Rightarrow> False | _ \<Rightarrow> True))"

text \<open>\<open>a <= b\<close> on expiry instants; false when either is \<open>NaN\<close> or absent.\<close>

definition expiry_le :: "int option \<Rightarrow> int option \<Rightarrow> bool" where
  "expiry_le a b = (case (a, b) of (Some x, Some y) \<Rightarrow> x \<le> y | _ \<Rightarrow> False)"

text \<open>
  A read during which the clock does not run backwards between the expiry check and the
  response, and the provider's successful answers declare a lifetime that is not negative.
\<close>

definition honest_event :: "read_event \<Rightarrow> bool" where
  "honest_event e =
     (clock e \<le> clock_after e \<and>
      (\<forall>rq r. network e rq = Response True (JsonObject r) \<longrightarrow>
         (\<exists>life. expires_in r = Some life \<and> 0 \<le> life)))"


section \<open>Sample values\<close>

definition offline :: "token_request \<Rightarrow> token_set http_result" where
  "offline rq = NetworkError"

definition answers :: "'b \<Rightarrow> 'a \<Rightarrow> 'b" where
  "answers r rq = r"

definition stored_token :: token where
  "stored_token = \<lparr>accessToken = Some (ascii ''at0''), accessTokenExpires = Some 1000,
     refreshToken = Some (ascii ''rt0''), user = Some \<lparr>user_id = Some (ascii ''u1'')\<rparr>,
     error = None, other_claims = []\<rparr>"

definition late_token :: token where
  "late_token = stored_token\<lparr>accessTokenExpires := Some 10000000\<rparr>"

definition failed_token :: token where
  "failed_token = stored_token\<lparr>error := Some RefreshAccessTokenError\<rparr>"

definition google_account :: token_set where
  "google_account = \<lparr>access_token = Some (ascii ''at1''), expires_in = Some 3599,
     refresh_token = Some (ascii ''rt1'')\<rparr>"

definition google_profile :: profile where
  "google_profile = \<lparr>sub = Some (ascii ''u1'')\<rparr>"

definition renewal :: "token_set http_result" where
  "renewal = Response True (JsonObject \<lparr>access_token = Some (ascii ''at2''),
     expires_in = Some 3599, refresh_token = None\<rparr>)"

definition backdated :: "token_set http_result" where
  "backdated = Response True (JsonObject \<lparr>access_token = Some (ascii ''at2''),
     expires_in = Some (- 1), refresh_token = None\<rparr>)"

definition two_reads :: "read_event list" where
  "two_reads = [\<lparr>clock = 500, network = offline, clock_after = 500\<rparr>,
                \<lparr>clock = 2000, network = answers renewal, clock_after = 2001\<rparr>]"

definition ready_state :: "js_string \<Rightarrow> js_string \<Rightarrow> ui_state" where
  "ready_state topic tok =
     \<lparr>input = Some topic, check = False, messages = [],
      session = Some \<lparr>session_accessToken = Some tok\<rparr>\<rparr>"

definition sent_state :: ui_state where
  "sent_state = \<lparr>input = Some [], check = True,
     messages = [\<lparr>sender = User, text = ascii ''X''\<rparr>],
     session = Some \<lparr>session_accessToken = Some (ascii ''tok123'')\<rparr>\<rparr>"

definition sent_request :: gen_request where
  "sent_request = \<lparr>authorization = ascii ''Bearer tok123'', body_topic = ascii ''X'',
     body_access_token = Some (ascii ''tok123'')\<rparr>"

definition typing_state :: ui_state where
  "typing_state = sent_state\<lparr>input := Some (ascii ''Y'')\<rparr>"

definition second_request :: gen_request where
  "second_request = \<lparr>authorization = ascii ''Bearer tok123'', body_topic = ascii ''Y'',
     body_access_token = Some (ascii ''tok123'')\<rparr>"

definition declined :: "gen_body http_result" where
  "declined = Response True (JsonObject \<lparr>success = Some False, url = None\<rparr>)"

definition created :: "js_string \<Rightarrow> gen_body http_result" where
  "created u = Response True (JsonObject \<lparr>success = Some True, url = Some u\<rparr>)"


section \<open>Credential lifecycle: properties\<close>

subsection \<open>Reading a valid token\<close>

text \<open>
  C4. A read of the session token that is not a sign-in (the account or the profile is
  absent) at a time strictly before \<open>accessTokenExpires\<close> returns the stored token
  itself, every field as it was, and sends no request.
\<close>

theorem jwt_valid_read_unchanged:
  assumes "account = None \<or> prof = None"
    and "accessTokenExpires tok = Some expires"
    and "now < expires"
  shows "jwt fetch now now' tok account prof = (tok, [])"
  using assms by (auto simp: jwt_def js_less_def split: option.splits)

theorem jwt_valid_read_unchanged_witness:
  "jwt offline 999 999 stored_token None None = (stored_token, [])"
  using jwt_valid_read_unchanged [where account = None and prof = None and tok = stored_token
      and expires = 1000 and now = 999 and now' = 999 and fetch = offline]
  by (simp add: stored_token_def)

subsection \<open>A failed refresh\<close>

lemma refresh_try_None_iff: "refresh_try r now tok = None \<longleftrightarrow> refresh_fails r"
  by (cases "(r, now, tok)" rule: refresh_try.cases) (auto simp: refresh_fails_def)

text \<open>
  C2. When the refresh attempt fails (the fetch rejects, the response is not a success,
  or its body is no object), the returned token is the old one with \<open>error\<close> set to
  \<open>"RefreshAccessTokenError"\<close>: \<open>accessToken\<close> and \<open>refreshToken\<close> are the values from
  before the attempt. The same holds for the read of an expired token that makes the
  attempt.
\<close>

theorem refresh_failure_keeps_tokens:
  assumes "refresh_fails (fetch (RefreshGrant (refreshToken tok)))"
  shows "fst (refreshAccessToken fetch now' tok) = tok\<lparr>error := Some RefreshAccessTokenError\<rparr>
    \<and> error (fst (refreshAccessToken fetch now' tok)) = Some RefreshAccessTokenError
    \<and> accessToken (fst (refreshAccessToken fetch now' tok)) = accessToken tok
    \<and> refreshToken (fst (refreshAccessToken fetch now' tok)) = refreshToken tok
    \<and> (\<not> js_less now (accessTokenExpires tok) \<longrightarrow>
         fst (jwt fetch now now' tok None None) = tok\<lparr>error := Some RefreshAccessTokenError\<rparr>)"
proof -
  from assms have "refresh_try (fetch (RefreshGrant (refreshToken tok))) now' tok = None"
    by (simp add: refresh_try_None_iff)
  then show ?thesis
    by (simp add: refreshAccessToken_def jwt_def)
qed

theorem refresh_failure_keeps_tokens_witness:
  "error (fst (refreshAccessToken offline 2000 stored_token)) = Some RefreshAccessTokenError
   \<and> accessToken (fst (refreshAccessToken offline 2000 stored_token)) = Some (ascii ''at0'')
   \<and> refreshToken (fst (refreshAccessToken offline 2000 stored_token)) = Some (ascii ''rt0'')
   \<and> fst (jwt offline 2000 2000 stored_token None None) = failed_token"
  using refresh_failure_keeps_tokens [of offline stored_token 2000 2000]
  by (simp add: refresh_fails_def offline_def stored_token_def failed_token_def js_less_def)

subsection \<open>The failed state is left only by a new sign-in\<close>

lemma refresh_try_error: "refresh_try r now tok = Some t \<Longrightarrow> error t = error tok"
  by (cases "(r, now, tok)" rule: refresh_try.cases) (auto split: if_splits)

lemma read_keeps_error:
  assumes "error tok = Some RefreshAccessTokenError"
  shows "error (fst (jwt fetch now now' tok None None)) = Some RefreshAccessTokenError"
  using assms
  by (auto simp: jwt_def refreshAccessToken_def Let_def dest: refresh_try_error split: option.splits)

lemma reads_keep_error:
  "error tok = Some RefreshAccessTokenError \<Longrightarrow> error (reads tok es) = Some RefreshAccessTokenError"
  by (induction es arbitrary: tok) (simp_all add: read_keeps_error)

text \<open>
  C3. From a token that carries the error tag, no sequence of ordinary reads leads to a
  token without it: a valid read returns the token, a failed refresh sets the tag again,
  and a successful refresh spreads the old token, tag included, under the new values.
  A call of the callback that does return a token without the tag is a sign-in (account
  and profile both present), and every sign-in returns a token without it.
\<close>

theorem refresh_failed_is_terminal:
  assumes "error tok = Some RefreshAccessTokenError"
  shows "error (reads tok es) = Some RefreshAccessTokenError
    \<and> (error (fst (jwt fetch now now' tok account prof)) = None
          \<longrightarrow> account \<noteq> None \<and> prof \<noteq> None)
    \<and> error (fst (jwt fetch now now' tok (Some a) (Some p))) = None"
proof -
  have sticky: "error (reads tok es) = Some RefreshAccessTokenError"
    using assms by (rule reads_keep_error)
  have only_signin: "account \<noteq> None \<and> prof \<noteq> None"
    if cleared: "error (fst (jwt fetch now now' tok account prof)) = None"
  proof (rule ccontr)
    assume "\<not> (account \<noteq> None \<and> prof \<noteq> None)"
    then have "jwt fetch now now' tok account prof = jwt fetch now now' tok None None"
      by (auto simp: jwt_def split: option.splits)
    with cleared read_keeps_error [OF assms, of fetch now now'] show False
      by simp
  qed
  have signin: "error (fst (jwt fetch now now' tok (Some a) (Some p))) = None"
    by (simp add: jwt_def)
  from sticky only_signin signin show ?thesis
    by blast
qed

theorem refresh_failed_is_terminal_witness:
  "error failed_token = Some RefreshAccessTokenError
   \<and> error (reads failed_token two_reads) = Some RefreshAccessTokenError
   \<and> accessToken (reads failed_token two_reads) = Some (ascii ''at2'')
   \<and> error (fst (jwt offline 2000 2000 failed_token (Some google_account) (Some google_profile))) = None"
  using refresh_failed_is_terminal [of failed_token two_reads offline 2000 2000
      "Some google_account" "Some google_profile" google_account google_profile]
  by (simp add: failed_token_def stored_token_def two_reads_def jwt_def js_less_def
      refreshAccessToken_def answers_def renewal_def js_plus_def js_times_def)

subsection \<open>The expiry set at sign-in\<close>

text \<open>
  The callback tests the declared lifetime for truthiness, so a declared lifetime of
  zero seconds is treated like an omitted one: signing in at 1000 ms with
  \<open>expires_in = 0\<close> gives the expiry 3601000, not 1000.
\<close>

theorem signin_expiry_counterexample:
  "expires_in (google_account\<lparr>expires_in := Some 0\<rparr>) = Some 0
   \<and> accessTokenExpires (fst (jwt offline 1000 1000 stored_token
        (Some (google_account\<lparr>expires_in := Some 0\<rparr>)) (Some google_profile))) = Some 3601000
   \<and> accessTokenExpires (fst (jwt offline 1000 1000 stored_token
        (Some (google_account\<lparr>expires_in := Some 0\<rparr>)) (Some google_profile)))
      \<noteq> Some (1000 + 0 * 1000)"
  by (simp add: jwt_def google_account_def)

text \<open>
  C7, amended. After a sign-in (account and profile present) \<open>accessTokenExpires\<close> is
  the time of the sign-in plus the declared lifetime in seconds times 1000 when the
  provider declares a lifetime other than zero, and the time of the sign-in plus
  3600 seconds when the lifetime is omitted or zero.
\<close>

theorem signin_expiry:
  "(\<forall>n. expires_in a = Some n \<and> n \<noteq> 0 \<longrightarrow>
      accessTokenExpires (fst (jwt fetch now now' tok (Some a) (Some p))) = Some (now + n * 1000))
   \<and> (expires_in a = None \<or> expires_in a = Some 0 \<longrightarrow>
      accessTokenExpires (fst (jwt fetch now now' tok (Some a) (Some p))) = Some (now + 3600 * 1000))"
  by (auto simp: jwt_def)

theorem signin_expiry_witness:
  "accessTokenExpires (fst (jwt offline 1000 1000 stored_token
      (Some google_account) (Some google_profile))) = Some 3600000
   \<and> accessTokenExpires (fst (jwt offline 1000 1000 stored_token
      (Some (google_account\<lparr>expires_in := None\<rparr>)) (Some google_profile))) = Some 3601000
   \<and> accessTokenExpires (fst (jwt offline 1000 1000 stored_token
      (Some (google_account\<lparr>expires_in := Some 0\<rparr>)) (Some google_profile))) = Some 3601000"
  using signin_expiry [of google_account offline 1000 1000 stored_token google_profile]
    signin_expiry [of "google_account\<lparr>expires_in := None\<rparr>" offline 1000 1000 stored_token google_profile]
    signin_expiry [of "google_account\<lparr>expires_in := Some 0\<rparr>" offline 1000 1000 stored_token google_profile]
  by (simp add: google_account_def)

subsection \<open>The expiry across refreshes\<close>

text \<open>
  The new expiry is the clock, read again after the response, plus whatever lifetime the
  provider returns; neither is checked. A token that expires at 1000 ms, read at 1000 ms
  and refreshed with success by an answer with \<open>expires_in = -1\<close>, expires at 0 ms
  afterwards. A token that expires at 10000000 ms, read at that time and refreshed with a
  lifetime of 3599 seconds after the clock has been set back to 5000000 ms, expires at
  8599000 ms afterwards.
\<close>

theorem expiry_monotone_counterexample:
  "accessTokenExpires stored_token = Some 1000
   \<and> jwt (answers backdated) 1000 1000 stored_token None None
       = (stored_token\<lparr>accessToken := Some (ascii ''at2''), accessTokenExpires := Some 0\<rparr>,
          [RefreshGrant (Some (ascii ''rt0''))])
   \<and> \<not> expiry_le (Some 1000) (Some 0)
   \<and> accessTokenExpires late_token = Some 10000000
   \<and> jwt (answers renewal) 10000000 5000000 late_token None None
       = (late_token\<lparr>accessToken := Some (ascii ''at2''), accessTokenExpires := Some 8599000\<rparr>,
          [RefreshGrant (Some (ascii ''rt0''))])
   \<and> \<not> expiry_le (Some 10000000) (Some 8599000)"
  by (simp add: jwt_def js_less_def refreshAccessToken_def answers_def backdated_def renewal_def
      stored_token_def late_token_def js_plus_def js_times_def expiry_le_def)

lemma read_expiry_step:
  assumes "honest_event e" and "accessTokenExpires tok = Some old"
  shows "\<exists>new. accessTokenExpires (fst (jwt (network e) (clock e) (clock_after e) tok None None)) = Some new
           \<and> old \<le> new"
proof (cases "clock e < old")
  case True
  with assms show ?thesis by (simp add: jwt_def js_less_def)
next
  case False
  let ?r = "network e (RefreshGrant (refreshToken tok))"
  show ?thesis
  proof (cases "refresh_try ?r (clock_after e) tok")
    case None
    with False assms show ?thesis
      by (simp add: jwt_def js_less_def refreshAccessToken_def)
  next
    case (Some t)
    then obtain r where r: "?r = Response True (JsonObject r)"
      and t: "t = tok\<lparr>accessToken := access_token r,
                accessTokenExpires := js_plus (clock_after e) (js_times (expires_in r) 1000),
                refreshToken := (case refresh_token r of None \<Rightarrow> refreshToken tok | Some x \<Rightarrow> Some x)\<rparr>"
      by (cases "(?r, clock_after e, tok)" rule: refresh_try.cases) (auto split: if_splits)
    from assms(1) r obtain life where life: "expires_in r = Some life" "0 \<le> life"
      unfolding honest_event_def by blast
    from assms(1) have "clock e \<le> clock_after e"
      by (simp add: honest_event_def)
    with False life have "old \<le> clock_after e + life * 1000"
      by simp
    with Some False assms(2) t life show ?thesis
      by (simp add: jwt_def js_less_def refreshAccessToken_def js_plus_def js_times_def)
  qed
qed

lemma reads_expiry:
  assumes "\<forall>e \<in> set es. honest_event e" and "accessTokenExpires tok = Some old"
  shows "\<exists>new. accessTokenExpires (reads tok es) = Some new \<and> old \<le> new"
  using assms
proof (induction es arbitrary: tok old)
  case Nil
  then show ?case by simp
next
  case (Cons e es)
  from Cons.prems obtain mid where
    mid: "accessTokenExpires (fst (jwt (network e) (clock e) (clock_after e) tok None None)) = Some mid"
      "old \<le> mid"
    using read_expiry_step [of e tok old] by auto
  from Cons.IH [OF _ mid(1)] Cons.prems(1) obtain new where
    "accessTokenExpires (reads (fst (jwt (network e) (clock e) (clock_after e) tok None None)) es) = Some new"
    "mid \<le> new"
    by auto
  with mid(2) show ?case by auto
qed

lemma reads_append: "reads tok (es @ fs) = reads (reads tok es) fs"
  by (induction es arbitrary: tok) simp_all

text \<open>
  C8, amended. Across every sequence of reads in which the clock does not run backwards
  between the expiry check and the response and every successful refresh answer declares
  a lifetime that is not negative, \<open>accessTokenExpires\<close> is monotonically non-decreasing:
  the expiry after the first \<open>j\<close> reads is at least the expiry after the first \<open>i \<le> j\<close>
  reads. In particular each successful refresh, which happens only once the clock has
  reached the old expiry, leaves an expiry that is at least the old one.
\<close>

theorem expiry_monotone:
  assumes "\<forall>e \<in> set es. honest_event e"
    and "accessTokenExpires tok = Some old"
    and "i \<le> j"
  shows "expiry_le (accessTokenExpires (reads tok (take i es)))
                   (accessTokenExpires (reads tok (take j es)))"
proof -
  have honest_take: "\<forall>e \<in> set (take i es). honest_event e"
    using assms(1) by (meson in_set_takeD)
  have honest_rest: "\<forall>e \<in> set (drop i (take j es)). honest_event e"
    using assms(1) by (meson in_set_dropD in_set_takeD)
  from reads_expiry [OF honest_take assms(2)] obtain mid where
    mid: "accessTokenExpires (reads tok (take i es)) = Some mid"
    by blast
  from reads_expiry [OF honest_rest mid] obtain new where
    new: "accessTokenExpires (reads (reads tok (take i es)) (drop i (take j es))) = Some new"
      "mid \<le> new"
    by blast
  have "take j es = take i es @ drop i (take j es)"
    using assms(3) by (metis append_take_drop_id min.absorb2 take_take min.commute)
  then have "reads tok (take j es) = reads (reads tok (take i es)) (drop i (take j es))"
    by (metis reads_append)
  with mid new show ?thesis
    by (simp add: expiry_le_def)
qed

theorem expiry_monotone_witness:
  "accessTokenExpires (reads stored_token (take 1 two_reads)) = Some 1000
   \<and> accessTokenExpires (reads stored_token (take 2 two_reads)) = Some 3601001
   \<and> expiry_le (accessTokenExpires (reads stored_token (take 1 two_reads)))
                (accessTokenExpires (reads stored_token (take 2 two_reads)))"
proof -
  have honest: "\<forall>e \<in> set two_reads. honest_event e"
    by (simp add: two_reads_def honest_event_def offline_def answers_def renewal_def)
  have stored: "accessTokenExpires stored_token = Some 1000"
    by (simp add: stored_token_def)
  have "(1::nat) \<le> 2" by simp
  from expiry_monotone [OF honest stored this] show ?thesis
    by (simp add: two_reads_def stored_token_def jwt_def js_less_def refreshAccessToken_def
        answers_def renewal_def js_plus_def js_times_def)
qed


section \<open>Generation request: properties\<close>

subsection \<open>The guard\<close>

lemma sync_guard:
  assumes "input st = None \<or> (\<exists>v. input st = Some v \<and> trim v = [])
     \<or> session st = None
     \<or> (\<exists>s. session st = Some s \<and> (session_accessToken s = None \<or> session_accessToken s = Some []))"
  shows "handleSubmit_sync st = (st, None)"
  using assms
  by (auto simp: handleSubmit_sync_def truthy_str_def optional_accessToken_def split: option.splits)

text \<open>
  C6. When the topic is empty after trimming (or there is no textarea), or the token
  is absent (no session, no \<open>accessToken\<close>, or the empty string), a submit is a no-op:
  the whole state, the conversation log with it, is unchanged and no request is sent.
\<close>

theorem submit_guard_noop:
  assumes "input st = None \<or> (\<exists>v. input st = Some v \<and> trim v = [])
     \<or> session st = None
     \<or> (\<exists>s. session st = Some s \<and> (session_accessToken s = None \<or> session_accessToken s = Some []))"
  shows "handleSubmit fetch st = (st, []) \<and> button_onClick st = (st, None)"
  using sync_guard [OF assms] by (simp add: handleSubmit_def button_onClick_def)

theorem submit_guard_noop_witness:
  "trim (ascii ''  '') = []
   \<and> handleSubmit (answers declined) (ready_state (ascii ''  '') (ascii ''tok123''))
       = (ready_state (ascii ''  '') (ascii ''tok123''), [])
   \<and> handleSubmit (answers declined) (ready_state (ascii ''topic'') [])
       = (ready_state (ascii ''topic'') [], [])
   \<and> length (messages (fst (handleSubmit (answers declined) (ready_state [] (ascii ''tok123''))))) = 0"
  using submit_guard_noop [of "ready_state (ascii ''  '') (ascii ''tok123'')" "answers declined"]
    submit_guard_noop [of "ready_state (ascii ''topic'') []" "answers declined"]
    submit_guard_noop [of "ready_state [] (ascii ''tok123'')" "answers declined"]
  by (simp add: ready_state_def trim_def ascii_def is_white_space_def)

subsection \<open>The in-flight flag\<close>

text \<open>
  \<open>handleSubmit\<close> does not read the flag. Called in a state in which the flag is true,
  the first topic \<open>X\<close> is in the log and \<open>Y\<close> has been typed since, it passes its guard:
  it appends \<open>Y\<close> to the log and sends a second request, and the reply to that request
  is appended as well.
\<close>

theorem in_flight_handler_counterexample:
  "check typing_state
   \<and> handleSubmit_sync typing_state
       = (sent_state\<lparr>messages := [\<lparr>sender = User, text = ascii ''X''\<rparr>,
                                    \<lparr>sender = User, text = ascii ''Y''\<rparr>]\<rparr>,
          Some second_request)
   \<and> handleSubmit (answers declined) typing_state
       = (sent_state\<lparr>messages := [\<lparr>sender = User, text = ascii ''X''\<rparr>,
                                    \<lparr>sender = User, text = ascii ''Y''\<rparr>,
                                    \<lparr>sender = Ai, text = apology_text\<rparr>],
                     check := False\<rparr>,
          [second_request])
   \<and> handleSubmit (answers declined) typing_state \<noteq> (typing_state, [])"
proof -
  have sync: "handleSubmit_sync typing_state
       = (sent_state\<lparr>messages := [\<lparr>sender = User, text = ascii ''X''\<rparr>,
                                    \<lparr>sender = User, text = ascii ''Y''\<rparr>]\<rparr>,
          Some second_request)"
    by (simp add: handleSubmit_sync_def typing_state_def sent_state_def second_request_def trim_def
        ascii_def is_white_space_def is_line_terminator_def truthy_str_def optional_accessToken_def
        setMessages_append_def template_def Let_def)
  have run: "handleSubmit (answers declined) typing_state
       = (sent_state\<lparr>messages := [\<lparr>sender = User, text = ascii ''X''\<rparr>,
                                    \<lparr>sender = User, text = ascii ''Y''\<rparr>,
                                    \<lparr>sender = Ai, text = apology_text\<rparr>],
                     check := False\<rparr>,
          [second_request])"
    by (simp add: handleSubmit_def sync handleSubmit_settle_def answers_def declined_def
        truthy_bool_def setMessages_append_def sent_state_def)
  have "check typing_state"
    by (simp add: typing_state_def sent_state_def)
  with sync run show ?thesis
    by simp
qed

text \<open>
  C1, amended. The guard is the send button, the only caller of \<open>handleSubmit\<close>, which
  is disabled while the flag is true. In every state in which the in-flight flag is true,
  a press of the button is a no-op: the state, the conversation log with it, is unchanged
  and no request is sent. A submit that sends its request leaves the flag true, so after
  a press that sent a request the next press is refused, whatever has been typed in
  between; once the call has settled the flag is false and a press reaches the handler
  again.
\<close>

theorem in_flight_click_rejected:
  "(check st \<longrightarrow> button_onClick st = (st, None))
   \<and> (handleSubmit_sync st = (st', Some rq) \<longrightarrow> check st' \<and> button_onClick st' = (st', None))
   \<and> (button_onClick st = (st', Some rq) \<longrightarrow>
        \<not> check st \<and> messages st' = messages st @ [\<lparr>sender = User, text = body_topic rq\<rparr>]
        \<and> button_onClick (st'\<lparr>input := Some v\<rparr>) = (st'\<lparr>input := Some v\<rparr>, None))
   \<and> button_onClick (handleSubmit_settle r st) = handleSubmit_sync (handleSubmit_settle r st)"
proof -
  have sent: "check st' \<and> messages st' = messages st @ [\<lparr>sender = User, text = body_topic rq\<rparr>]"
    if "handleSubmit_sync st = (st', Some rq)"
    using that
    by (auto simp: handleSubmit_sync_def Let_def setMessages_append_def split: option.splits if_splits)
  have pressed: "\<not> check st \<and> handleSubmit_sync st = (st', Some rq)"
    if "button_onClick st = (st', Some rq)"
    using that by (auto simp: button_onClick_def split: if_splits)
  have settled: "\<not> check (handleSubmit_settle r st)"
    by (simp add: handleSubmit_settle_def)
  have refused: "check st \<longrightarrow> button_onClick st = (st, None)"
    by (simp add: button_onClick_def)
  have after_send: "handleSubmit_sync st = (st', Some rq) \<longrightarrow>
      check st' \<and> button_onClick st' = (st', None)"
    using sent by (simp add: button_onClick_def)
  have after_press: "button_onClick st = (st', Some rq) \<longrightarrow>
      \<not> check st \<and> messages st' = messages st @ [\<lparr>sender = User, text = body_topic rq\<rparr>]
      \<and> button_onClick (st'\<lparr>input := Some v\<rparr>) = (st'\<lparr>input := Some v\<rparr>, None)"
  proof
    assume press: "button_onClick st = (st', Some rq)"
    from pressed [OF press] have idle: "\<not> check st" and sync: "handleSubmit_sync st = (st', Some rq)"
      by simp_all
    from sent [OF sync] have flag: "check st'"
      and log: "messages st' = messages st @ [\<lparr>sender = User, text = body_topic rq\<rparr>]"
      by simp_all
    from flag have "button_onClick (st'\<lparr>input := Some v\<rparr>) = (st'\<lparr>input := Some v\<rparr>, None)"
      by (simp add: button_onClick_def)
    with idle log
    show "\<not> check st \<and> messages st' = messages st @ [\<lparr>sender = User, text = body_topic rq\<rparr>]
      \<and> button_onClick (st'\<lparr>input := Some v\<rparr>) = (st'\<lparr>input := Some v\<rparr>, None)"
      by simp
  qed
  have after_settle: "button_onClick (handleSubmit_settle r st) = handleSubmit_sync (handleSubmit_settle r st)"
    using settled by (simp add: button_onClick_def)
  from refused after_send after_press after_settle show ?thesis
    by (intro conjI)
qed

theorem in_flight_click_rejected_witness:
  "check typing_state
   \<and> button_onClick typing_state = (typing_state, None)
   \<and> handleSubmit_sync (ready_state (ascii ''X'') (ascii ''tok123'')) = (sent_state, Some sent_request)
   \<and> button_onClick (ready_state (ascii ''X'') (ascii ''tok123'')) = (sent_state, Some sent_request)
   \<and> button_onClick sent_state = (sent_state, None)
   \<and> button_onClick (sent_state\<lparr>input := Some (ascii ''Y'')\<rparr>)
       = (sent_state\<lparr>input := Some (ascii ''Y'')\<rparr>, None)"
proof -
  have sync: "handleSubmit_sync (ready_state (ascii ''X'') (ascii ''tok123'')) = (sent_state, Some sent_request)"
    by (simp add: handleSubmit_sync_def ready_state_def sent_state_def sent_request_def trim_def
        ascii_def is_white_space_def is_line_terminator_def truthy_str_def optional_accessToken_def
        setMessages_append_def template_def Let_def)
  have press: "button_onClick (ready_state (ascii ''X'') (ascii ''tok123'')) = (sent_state, Some sent_request)"
    using sync by (simp add: button_onClick_def ready_state_def)
  have flag: "check typing_state"
    by (simp add: typing_state_def sent_state_def)
  from sync press flag
    in_flight_click_rejected [where st = typing_state
      and st' = sent_state and rq = sent_request and r = NetworkError and v = "ascii ''Y''"]
    in_flight_click_rejected [where st = "ready_state (ascii ''X'') (ascii ''tok123'')"
      and st' = sent_state and rq = sent_request and r = NetworkError and v = "ascii ''Y''"]
  show ?thesis
    by simp
qed

lemma settle_appends_one:
  "\<exists>m. messages (handleSubmit_settle r st) = messages st @ [m] \<and> sender m = Ai
       \<and> (text m = try_again_text \<or> text m = apology_text \<or> (\<exists>u. text m = success_text u))"
  by (cases "(r, st)" rule: submit_try.cases)
     (auto simp: handleSubmit_settle_def setMessages_append_def)

lemma settle_throws:
  "throws r \<Longrightarrow> handleSubmit_settle r st
     = st\<lparr>messages := messages st @ [\<lparr>sender = Ai, text = try_again_text\<rparr>], check := False\<rparr>"
  by (cases "(r, st)" rule: submit_try.cases)
     (simp_all add: handleSubmit_settle_def setMessages_append_def throws_def)

text \<open>
  C9. Whatever the outcome of the call (a success, a soft failure or a throw), settling
  appends one reply to the log and leaves the in-flight flag false; when the call throws,
  the reply is the "try again" message. So every submit that sends a request ends with
  the flag false.
\<close>

theorem in_flight_cleared:
  "\<not> check (handleSubmit_settle r st')
   \<and> (\<exists>m. messages (handleSubmit_settle r st') = messages st' @ [m] \<and> sender m = Ai
          \<and> (text m = try_again_text \<or> text m = apology_text \<or> (\<exists>u. text m = success_text u)))
   \<and> (throws r \<longrightarrow>
        messages (handleSubmit_settle r st') = messages st' @ [\<lparr>sender = Ai, text = try_again_text\<rparr>])
   \<and> (handleSubmit_sync st = (st', Some rq) \<longrightarrow>
        handleSubmit fetch st = (handleSubmit_settle (fetch rq) st', [rq])
        \<and> \<not> check (fst (handleSubmit fetch st)))"
proof -
  have cleared: "\<not> check (handleSubmit_settle r' st'')" for r' st''
    by (simp add: handleSubmit_settle_def)
  have "handleSubmit_sync st = (st', Some rq) \<longrightarrow>
        handleSubmit fetch st = (handleSubmit_settle (fetch rq) st', [rq])
        \<and> \<not> check (fst (handleSubmit fetch st))"
    by (simp add: handleSubmit_def cleared)
  with cleared settle_appends_one [of r st'] settle_throws [of r st'] show ?thesis
    by simp
qed

theorem in_flight_cleared_witness:
  "throws (NetworkError :: gen_body http_result)
   \<and> handleSubmit_sync (ready_state (ascii ''X'') (ascii ''tok123'')) = (sent_state, Some sent_request)
   \<and> handleSubmit (answers NetworkError) (ready_state (ascii ''X'') (ascii ''tok123''))
       = (sent_state\<lparr>messages := [\<lparr>sender = User, text = ascii ''X''\<rparr>,
                                    \<lparr>sender = Ai, text = try_again_text\<rparr>],
                     check := False\<rparr>, [sent_request])
   \<and> \<not> check (fst (handleSubmit (answers NetworkError) (ready_state (ascii ''X'') (ascii ''tok123''))))"
proof -
  have sync: "handleSubmit_sync (ready_state (ascii ''X'') (ascii ''tok123'')) = (sent_state, Some sent_request)"
    by (simp add: handleSubmit_sync_def ready_state_def sent_state_def sent_request_def trim_def
        ascii_def is_white_space_def is_line_terminator_def truthy_str_def optional_accessToken_def
        setMessages_append_def template_def Let_def)
  have thrown: "throws (NetworkError :: gen_body http_result)"
    by (simp add: throws_def)
  have log: "messages sent_state = [\<lparr>sender = User, text = ascii ''X''\<rparr>]"
    by (simp add: sent_state_def)
  from sync thrown log
    in_flight_cleared [where r = "NetworkError" and st' = sent_state and rq = sent_request
      and st = "ready_state (ascii ''X'') (ascii ''tok123'')" and fetch = "answers NetworkError"]
    settle_throws [OF thrown, of sent_state]
  show ?thesis
    by (simp add: answers_def)
qed

subsection \<open>The three replies\<close>

lemma link_phrase_success: "startsWith (success_text u) link_phrase"
  by (simp add: startsWith_def success_text_def)

lemma link_phrase_apology: "\<not> startsWith apology_text link_phrase"
  by (simp add: startsWith_def apology_text_def link_phrase_def ascii_def)

lemma link_phrase_try_again: "\<not> startsWith try_again_text link_phrase"
  by (simp add: startsWith_def try_again_text_def link_phrase_def ascii_def)

text \<open>
  C10. A body that parses but has no \<open>url\<close>, or an empty one, takes the soft-failure
  path whatever its \<open>success\<close> flag: the reply is the fixed apology. The reply is a
  success message (it opens with the link phrase) exactly when the body has a true
  \<open>success\<close> flag and a non-empty \<open>url\<close>.
\<close>

theorem no_dangling_link:
  "(\<not> truthy_str (url data) \<longrightarrow>
      handleSubmit_settle (Response ok (JsonObject data)) st
        = st\<lparr>messages := messages st @ [\<lparr>sender = Ai, text = apology_text\<rparr>], check := False\<rparr>)
   \<and> (startsWith (text (last (messages (handleSubmit_settle r st)))) link_phrase
        \<longleftrightarrow> (\<exists>ok' data' u. r = Response ok' (JsonObject data')
               \<and> success data' = Some True \<and> url data' = Some u \<and> u \<noteq> []))"
proof -
  have soft: "\<not> truthy_str (url data) \<longrightarrow>
      handleSubmit_settle (Response ok (JsonObject data)) st
        = st\<lparr>messages := messages st @ [\<lparr>sender = Ai, text = apology_text\<rparr>], check := False\<rparr>"
    by (simp add: handleSubmit_settle_def setMessages_append_def)
  have only: "startsWith (text (last (messages (handleSubmit_settle r st)))) link_phrase
        \<longleftrightarrow> (\<exists>ok' data' u. r = Response ok' (JsonObject data')
               \<and> success data' = Some True \<and> url data' = Some u \<and> u \<noteq> [])"
    by (cases "(r, st)" rule: submit_try.cases)
       (auto simp: handleSubmit_settle_def setMessages_append_def truthy_bool_def truthy_str_def
          link_phrase_success link_phrase_apology link_phrase_try_again split: option.splits)
  from soft only show ?thesis by blast
qed

theorem no_dangling_link_witness:
  "\<not> truthy_str (url \<lparr>success = Some True, url = Some []\<rparr>)
   \<and> messages (handleSubmit_settle
        (Response True (JsonObject \<lparr>success = Some True, url = Some []\<rparr>))
        (ready_state [] (ascii ''tok123'')))
       = [\<lparr>sender = Ai, text = apology_text\<rparr>]
   \<and> messages (handleSubmit_settle
        (Response True (JsonObject \<lparr>success = Some True, url = None\<rparr>))
        (ready_state [] (ascii ''tok123'')))
       = [\<lparr>sender = Ai, text = apology_text\<rparr>]"
  using no_dangling_link [of "\<lparr>success = Some True, url = Some []\<rparr>" True "ready_state [] (ascii ''tok123'')"]
    no_dangling_link [of "\<lparr>success = Some True, url = None\<rparr>" True "ready_state [] (ascii ''tok123'')"]
  by (simp add: truthy_str_def ready_state_def)

subsection \<open>The link of a success reply\<close>

text \<open>
  A submit that passes the guard and is answered with a true \<open>success\<close> flag and a
  non-empty \<open>url\<close> appends two messages: the user's topic, then the success text with
  the link between parentheses.
\<close>

lemma submit_success_log:
  assumes "input st = Some topic" and "trim topic \<noteq> []"
    and "session st = Some s" and "session_accessToken s = Some tok" and "tok \<noteq> []"
    and "fetch \<lparr>authorization = ascii ''Bearer '' @ tok, body_topic = topic,
                 body_access_token = Some tok\<rparr> = Response ok (JsonObject \<lparr>success = Some True, url = Some u\<rparr>)"
    and "u \<noteq> []"
  shows "handleSubmit fetch st =
     (st\<lparr>input := Some [],
         messages := messages st @ [\<lparr>sender = User, text = topic\<rparr>,
                                    \<lparr>sender = Ai, text = success_text u\<rparr>],
         check := False\<rparr>,
      [\<lparr>authorization = ascii ''Bearer '' @ tok, body_topic = topic, body_access_token = Some tok\<rparr>])"
  using assms
  by (simp add: handleSubmit_def handleSubmit_sync_def handleSubmit_settle_def Let_def
      truthy_str_def truthy_bool_def optional_accessToken_def template_def setMessages_append_def)

lemma match_skip:
  "0x28 \<notin> set p \<Longrightarrow> match_parenthesized (p @ s) = match_parenthesized s"
  by (induction p) auto

lemma lazy_dots_clean:
  "0x29 \<notin> set u \<Longrightarrow> \<forall>c \<in> set u. \<not> is_line_terminator c \<Longrightarrow> lazy_dots (u @ 0x29 # s) = Some u"
  by (induction u) auto

lemma success_text_split:
  "success_text u =
     (link_phrase @ ascii '' '' @ [0xD83D, 0xDC49] @ ascii '' [View Presentation]'') @ 0x28 # (u @ 0x29 # [])"
  by (simp add: success_text_def ascii_def)

text \<open>
  The page gets the link back from the success text when the link has no closing
  parenthesis and no line terminator in it.
\<close>

lemma href_success_text:
  assumes "u \<noteq> []" and "0x29 \<notin> set u" and "\<forall>c \<in> set u. \<not> is_line_terminator c"
  shows "href (success_text u) = u"
proof -
  have "0x28 \<notin> set (link_phrase @ ascii '' '' @ [0xD83D, 0xDC49] @ ascii '' [View Presentation]'')"
    by (simp add: link_phrase_def ascii_def)
  then have "match_parenthesized (success_text u) = match_parenthesized (0x28 # (u @ 0x29 # []))"
    unfolding success_text_split by (rule match_skip)
  also have "\<dots> = Some u"
    using assms(2,3) by (simp add: lazy_dots_clean)
  finally show ?thesis
    using assms(1) by (simp add: href_def)
qed

text \<open>
  For the link \<open>https://slides.example/abc\<close> the anchor points to the link.
\<close>

lemma link_without_parenthesis_extracted:
  "render \<lparr>sender = Ai, text = success_text (ascii ''https://slides.example/abc'')\<rparr>
     = Anchor (ascii ''https://slides.example/abc'')"
proof -
  have "href (success_text (ascii ''https://slides.example/abc'')) = ascii ''https://slides.example/abc''"
    by (rule href_success_text) (simp_all add: ascii_def is_line_terminator_def)
  then show ?thesis
    by (simp add: render_def link_phrase_success)
qed

text \<open>
  C5. The claim holds for the log and the text, and fails for the extraction: the lazy
  group of the pattern stops at the first closing parenthesis, which is inside the link
  when the link has one. Submitting \<open>X\<close> with the token \<open>tok123\<close> against
  \<open>{success: true, url: "https://slides.example/a_(b)"}\<close> gives a log of two messages,
  and the anchor rendered for the second one points to \<open>https://slides.example/a_(b\<close>.
\<close>

theorem link_with_parenthesis_truncated:
  "handleSubmit (answers (created (ascii ''https://slides.example/a_(b)'')))
       (ready_state (ascii ''X'') (ascii ''tok123''))
     = (sent_state\<lparr>messages :=
           [\<lparr>sender = User, text = ascii ''X''\<rparr>,
            \<lparr>sender = Ai, text = success_text (ascii ''https://slides.example/a_(b)'')\<rparr>],
          check := False\<rparr>, [sent_request])
   \<and> render \<lparr>sender = Ai, text = success_text (ascii ''https://slides.example/a_(b)'')\<rparr>
       = Anchor (ascii ''https://slides.example/a_(b'')
   \<and> href (success_text (ascii ''https://slides.example/a_(b)'')) \<noteq> ascii ''https://slides.example/a_(b)''"
proof -
  have run: "handleSubmit (answers (created (ascii ''https://slides.example/a_(b)'')))
       (ready_state (ascii ''X'') (ascii ''tok123''))
     = (sent_state\<lparr>messages :=
           [\<lparr>sender = User, text = ascii ''X''\<rparr>,
            \<lparr>sender = Ai, text = success_text (ascii ''https://slides.example/a_(b)'')\<rparr>],
          check := False\<rparr>, [sent_request])"
    by (simp add: handleSubmit_def handleSubmit_sync_def handleSubmit_settle_def ready_state_def
        sent_state_def sent_request_def created_def answers_def trim_def is_white_space_def
        is_line_terminator_def truthy_str_def truthy_bool_def optional_accessToken_def
        template_def setMessages_append_def ascii_def Let_def)
  have cut: "href (success_text (ascii ''https://slides.example/a_(b)''))
       = ascii ''https://slides.example/a_(b''"
    by (simp add: success_text_def link_phrase_def href_def ascii_def is_line_terminator_def)
  have "render \<lparr>sender = Ai, text = success_text (ascii ''https://slides.example/a_(b)'')\<rparr>
       = Anchor (ascii ''https://slides.example/a_(b'')"
    by (simp add: render_def link_phrase_success cut)
  moreover have "ascii ''https://slides.example/a_(b'' \<noteq> ascii ''https://slides.example/a_(b)''"
    by (simp add: ascii_def)
  ultimately show ?thesis
    using run cut by simp
qed

end
